theory Spec2Isabelle
  imports Complex_Main
begin

section \<open>Qt value types used by the map control\<close>

text \<open>
  \<open>QPointF\<close>, \<open>QSizeF\<close> and \<open>QRectF\<close> belong to the Qt library, which the map control
  links against.  They are written out here the way Qt 5 implements them
  (\<open>qpoint.h\<close>, \<open>qsize.h\<close>, \<open>qrect.h\<close>, \<open>qrect.cpp\<close>).  A \<open>qreal\<close> is a C++ \<open>double\<close>; its
  finite values are idealised as \<open>real\<close> numbers, so rounding, infinities and
  not-a-number values are outside the model.  The one place of the control where
  a quotient has no finite value (\<open>0.0 / 0\<close> in \<open>calculateMapFocusPoint\<close>) is
  modelled as \<open>None\<close>.
\<close>

datatype QPointF = QPointF (ptx: real) (pty: real)

datatype QSizeF = QSizeF (width: real) (height: real)

text \<open>The private members \<open>xp\<close>, \<open>yp\<close>, \<open>w\<close>, \<open>h\<close> of a \<open>QRectF\<close>.\<close>

datatype QRectF = QRectF (xp: real) (yp: real) (rw: real) (rh: real)

instantiation QPointF :: "{plus, minus}"
begin

definition plus_QPointF :: "QPointF \<Rightarrow> QPointF \<Rightarrow> QPointF" where
  "plus_QPointF p q = QPointF (ptx p + ptx q) (pty p + pty q)"

definition minus_QPointF :: "QPointF \<Rightarrow> QPointF \<Rightarrow> QPointF" where
  "minus_QPointF p q = QPointF (ptx p - ptx q) (pty p - pty q)"

instance ..

end

text \<open>\<open>operator/(const QPointF &, qreal)\<close>, used with a non-zero divisor only.\<close>

definition pt_div :: "QPointF \<Rightarrow> real \<Rightarrow> QPointF" where
  "pt_div p c = QPointF (ptx p / c) (pty p / c)"

text \<open>The constructor \<open>QRectF(const QPointF &topLeft, const QPointF &bottomRight)\<close>.\<close>

definition QRectF_corners :: "QPointF \<Rightarrow> QPointF \<Rightarrow> QRectF" where
  "QRectF_corners topLeft bottomRight =
     QRectF (ptx topLeft) (pty topLeft)
       (ptx bottomRight - ptx topLeft) (pty bottomRight - pty topLeft)"

definition isNull :: "QRectF \<Rightarrow> bool" where
  "isNull r = (rw r = 0 \<and> rh r = 0)"

definition isValid :: "QRectF \<Rightarrow> bool" where
  "isValid r = (rw r > 0 \<and> rh r > 0)"

text \<open>
  \<open>QRectF::contains(const QPointF &)\<close>: the rectangle is normalised; a rectangle of
  zero width or zero height contains nothing; the edges belong to the rectangle.
\<close>

definition contains :: "QRectF \<Rightarrow> QPointF \<Rightarrow> bool" where
  "contains rc p =
     (let l = (if rw rc < 0 then xp rc + rw rc else xp rc);
          r = (if rw rc < 0 then xp rc else xp rc + rw rc)
      in if l = r then False
         else if ptx p < l \<or> ptx p > r then False
         else
           let t = (if rh rc < 0 then yp rc + rh rc else yp rc);
               b = (if rh rc < 0 then yp rc else yp rc + rh rc)
           in if t = b then False
              else if pty p < t \<or> pty p > b then False
              else True)"

text \<open>\<open>QRectF::contains(const QRectF &)\<close>, with the same order of tests as Qt.\<close>

definition contains_rect :: "QRectF \<Rightarrow> QRectF \<Rightarrow> bool" where
  "contains_rect rc r =
     (let l1 = (if rw rc < 0 then xp rc + rw rc else xp rc);
          r1 = (if rw rc < 0 then xp rc else xp rc + rw rc)
      in if l1 = r1 then False
         else
           let l2 = (if rw r < 0 then xp r + rw r else xp r);
               r2 = (if rw r < 0 then xp r else xp r + rw r)
           in if l2 = r2 then False
              else if l2 < l1 \<or> r2 > r1 then False
              else
                let t1 = (if rh rc < 0 then yp rc + rh rc else yp rc);
                    b1 = (if rh rc < 0 then yp rc else yp rc + rh rc)
                in if t1 = b1 then False
                   else
                     let t2 = (if rh r < 0 then yp r + rh r else yp r);
                         b2 = (if rh r < 0 then yp r else yp r + rh r)
                     in if t2 = b2 then False
                        else if t2 < t1 \<or> b2 > b1 then False
                        else True)"

section \<open>The projection\<close>

text \<open>
  \<open>projection::get()\<close> is the projection singleton of \<open>Projection.h\<close>.  The control
  only calls its two conversions, so it is a parameter of every operation that
  converts: nothing is assumed about the two functions.
\<close>

record Projection =
  toPixelPoint :: "QPointF \<Rightarrow> int \<Rightarrow> QPointF"
  toCoordinatePoint :: "QPointF \<Rightarrow> int \<Rightarrow> QPointF"

section \<open>The state of \<open>QMapControl\<close>\<close>

text \<open>
  The members of \<open>QMapControl\<close> that the viewport logic reads or writes, under their
  own names.  Pixmaps, widgets, mouse settings and the layer container are left
  out.  \<open>m_animated_mutex\<close> is \<open>True\<close> while the mutex is held.  The zoom levels are
  C++ \<open>int\<close>; they only change by guarded steps of one (\<open>m_current_zoom++\<close> under
  \<open>m_current_zoom < m_zoom_maximum\<close>, and symmetrically), so they never overflow and
  are modelled as \<open>int\<close>.

  Two counters record what the control hands to the Qt event machinery:
  \<open>redraw_jobs\<close> counts the calls \<open>QtConcurrent::run(this, &QMapControl::redrawBackbuffer)\<close>,
  and \<open>animated_ticks_pending\<close> counts the single-shot timers armed for
  \<open>animatedTick()\<close> that have not fired yet.
\<close>

record QMapControl =
  m_viewport_size_px :: QSizeF
  m_viewport_center_px :: QPointF
  m_limited_viewport_rect_coord :: QRectF
  m_map_focus_coord :: QPointF
  m_animated_map_focus_point :: QPointF
  m_animated_steps :: int
  m_animated_interval :: int
  m_animated_mutex :: bool
  m_zoom_minimum :: int
  m_zoom_maximum :: int
  m_current_zoom :: int
  m_primary_screen_map_focus_point :: QPointF
  m_primary_screen_backbuffer_rect_px :: QRectF
  redraw_jobs :: nat
  animated_ticks_pending :: nat

section \<open>Coordinate transform\<close>

definition mapFocusPointPx :: "Projection \<Rightarrow> QMapControl \<Rightarrow> QPointF" where
  "mapFocusPointPx prj s = toPixelPoint prj (m_map_focus_coord s) (m_current_zoom s)"

text \<open>The two overloads of \<open>toPointPx\<close>; the second takes the reference focus.\<close>

definition toPointPx_focus :: "QMapControl \<Rightarrow> QPointF \<Rightarrow> QPointF \<Rightarrow> QPointF" where
  "toPointPx_focus s click_point_px map_focus_point_px =
     click_point_px - m_viewport_center_px s + map_focus_point_px"

definition toPointPx :: "Projection \<Rightarrow> QMapControl \<Rightarrow> QPointF \<Rightarrow> QPointF" where
  "toPointPx prj s click_point_px =
     toPointPx_focus s click_point_px (mapFocusPointPx prj s)"

definition getViewportRect :: "Projection \<Rightarrow> QMapControl \<Rightarrow> QRectF" where
  "getViewportRect prj s =
     QRectF_corners
       (toCoordinatePoint prj (mapFocusPointPx prj s - m_viewport_center_px s) (m_current_zoom s))
       (toCoordinatePoint prj (mapFocusPointPx prj s + m_viewport_center_px s) (m_current_zoom s))"

section \<open>Backbuffer\<close>

definition checkBackbuffer :: "Projection \<Rightarrow> QMapControl \<Rightarrow> bool" where
  "checkBackbuffer prj s =
     (let required_viewport_rect_px =
            QRectF_corners (toPointPx prj s (QPointF 0 0))
              (toPointPx prj s
                 (QPointF (width (m_viewport_size_px s)) (height (m_viewport_size_px s))))
      in if contains_rect (m_primary_screen_backbuffer_rect_px s) required_viewport_rect_px = False
         then True else False)"

text \<open>
  \<open>redrawPrimaryScreen\<close> dispatches a redraw job when forced or when the backbuffer
  is stale.  Moving the layers' geometry widgets and \<open>QWidget::update()\<close> do not
  touch the members above.
\<close>

definition redrawPrimaryScreen :: "Projection \<Rightarrow> bool \<Rightarrow> QMapControl \<Rightarrow> QMapControl" where
  "redrawPrimaryScreen prj force_redraw s =
     (if force_redraw \<or> checkBackbuffer prj s
      then s\<lparr>redraw_jobs := redraw_jobs s + 1\<rparr>
      else s)"

text \<open>
  The body of \<open>redrawBackbuffer\<close>, which runs on a worker thread.  \<open>acquired\<close> is the
  outcome of \<open>m_backbuffer_queued_mutex.try_lock()\<close>: without the lock nothing is
  done.  With it, the job captures the focus in map pixels, computes the
  rectangle it draws, and emits both with the image through \<open>updatedBackBuffer\<close>.
\<close>

definition redrawBackbuffer :: "Projection \<Rightarrow> QMapControl \<Rightarrow> bool \<Rightarrow> (QRectF \<times> QPointF) option" where
  "redrawBackbuffer prj s acquired =
     (if acquired then
        let backbuffer_map_focus_px = mapFocusPointPx prj s;
            backbuffer_rect_px =
              QRectF_corners
                (toPointPx_focus s (QPointF 0 0 - m_viewport_center_px s) backbuffer_map_focus_px)
                (toPointPx_focus s
                   (QPointF (width (m_viewport_size_px s)) (height (m_viewport_size_px s))
                      + m_viewport_center_px s)
                   backbuffer_map_focus_px)
        in Some (backbuffer_rect_px, backbuffer_map_focus_px)
      else None)"

text \<open>The slot connected to \<open>updatedBackBuffer\<close>: it publishes the new backbuffer.\<close>

definition updatePrimaryScreen :: "QMapControl \<Rightarrow> QRectF \<Rightarrow> QPointF \<Rightarrow> QMapControl" where
  "updatePrimaryScreen s backbuffer_rect_px backbuffer_map_focus_px =
     s\<lparr>m_primary_screen_backbuffer_rect_px := backbuffer_rect_px,
       m_primary_screen_map_focus_point := backbuffer_map_focus_px\<rparr>"

text \<open>
  The constructor connects the signal \<open>updatedBackBuffer\<close> to the slot
  \<open>updatePrimaryScreen\<close>, so a redraw job that got the lock ends with the slot
  publishing what the job emitted.
\<close>

definition runRedrawJob :: "Projection \<Rightarrow> QMapControl \<Rightarrow> bool \<Rightarrow> QMapControl" where
  "runRedrawJob prj s acquired =
     (case redrawBackbuffer prj s acquired of
        None \<Rightarrow> s
      | Some (backbuffer_rect_px, backbuffer_map_focus_px) \<Rightarrow>
          updatePrimaryScreen s backbuffer_rect_px backbuffer_map_focus_px)"

section \<open>The two mutexes of the redraw jobs\<close>













section \<open>Focus\<close>

definition setMapFocusPoint :: "Projection \<Rightarrow> QMapControl \<Rightarrow> QPointF \<Rightarrow> QMapControl" where
  "setMapFocusPoint prj s point_coord =
     redrawPrimaryScreen prj False (s\<lparr>m_map_focus_coord := point_coord\<rparr>)"

definition scrollView :: "Projection \<Rightarrow> QMapControl \<Rightarrow> QPointF \<Rightarrow> QMapControl" where
  "scrollView prj s delta_px =
     (let new_map_focus_coord =
            toCoordinatePoint prj (mapFocusPointPx prj s + delta_px) (m_current_zoom s)
      in if isNull (m_limited_viewport_rect_coord s)
            \<or> (isValid (m_limited_viewport_rect_coord s)
                \<and> contains (m_limited_viewport_rect_coord s) new_map_focus_coord)
         then setMapFocusPoint prj s new_map_focus_coord
         else s)"

section \<open>Zoom\<close>

text \<open>
  \<open>zoomIn\<close> and \<open>zoomOut\<close>.  Aborting the image loading, painting the scaled preview
  and \<open>updateControls()\<close> act on the image manager and on widgets only.
\<close>

definition zoomIn :: "Projection \<Rightarrow> QMapControl \<Rightarrow> QMapControl" where
  "zoomIn prj s =
     (if m_current_zoom s < m_zoom_maximum s
      then redrawPrimaryScreen prj True (s\<lparr>m_current_zoom := m_current_zoom s + 1\<rparr>)
      else s)"

definition zoomOut :: "Projection \<Rightarrow> QMapControl \<Rightarrow> QMapControl" where
  "zoomOut prj s =
     (if m_current_zoom s > m_zoom_minimum s
      then redrawPrimaryScreen prj True (s\<lparr>m_current_zoom := m_current_zoom s - 1\<rparr>)
      else s)"

text \<open>The two counting loops of \<open>setZoom\<close>: \<open>i\<close> starts at the current zoom.\<close>

function setZoom_out_loop :: "Projection \<Rightarrow> int \<Rightarrow> int \<Rightarrow> QMapControl \<Rightarrow> QMapControl" where
  "setZoom_out_loop prj i zoom s =
     (if i > zoom then setZoom_out_loop prj (i - 1) zoom (zoomOut prj s) else s)"
  by pat_completeness auto
termination
  by (relation "measure (\<lambda>(prj, i, zoom, s). nat (i - zoom))") auto

function setZoom_in_loop :: "Projection \<Rightarrow> int \<Rightarrow> int \<Rightarrow> QMapControl \<Rightarrow> QMapControl" where
  "setZoom_in_loop prj i zoom s =
     (if i < zoom then setZoom_in_loop prj (i + 1) zoom (zoomIn prj s) else s)"
  by pat_completeness auto
termination
  by (relation "measure (\<lambda>(prj, i, zoom, s). nat (zoom - i))") auto

declare setZoom_out_loop.simps [simp del]
declare setZoom_in_loop.simps [simp del]

definition setZoom :: "Projection \<Rightarrow> QMapControl \<Rightarrow> int \<Rightarrow> QMapControl" where
  "setZoom prj s zoom0 =
     (let zoom = (if zoom0 < m_zoom_minimum s then m_zoom_minimum s
                  else if zoom0 > m_zoom_maximum s then m_zoom_maximum s
                  else zoom0)
      in if m_current_zoom s \<noteq> zoom then
           if m_current_zoom s > zoom
           then setZoom_out_loop prj (m_current_zoom s) zoom s
           else setZoom_in_loop prj (m_current_zoom s) zoom s
         else s)"

text \<open>
  \<open>checkZoom\<close>, as written: the bounds are exchanged when the maximum is greater
  than the minimum.
\<close>

definition checkZoom :: "Projection \<Rightarrow> QMapControl \<Rightarrow> QMapControl" where
  "checkZoom prj s =
     (let s1 = (if m_zoom_maximum s > m_zoom_minimum s
                then s\<lparr>m_zoom_minimum := m_zoom_maximum s, m_zoom_maximum := m_zoom_minimum s\<rparr>
                else s)
      in if m_current_zoom s1 < m_zoom_minimum s1 then setZoom prj s1 (m_zoom_minimum s1)
         else if m_current_zoom s1 > m_zoom_maximum s1 then setZoom prj s1 (m_zoom_maximum s1)
         else s1)"

definition setZoomMinimum :: "Projection \<Rightarrow> QMapControl \<Rightarrow> int \<Rightarrow> QMapControl" where
  "setZoomMinimum prj s zoom = checkZoom prj (s\<lparr>m_zoom_minimum := zoom\<rparr>)"

definition setZoomMaximum :: "Projection \<Rightarrow> QMapControl \<Rightarrow> int \<Rightarrow> QMapControl" where
  "setZoomMaximum prj s zoom = checkZoom prj (s\<lparr>m_zoom_maximum := zoom\<rparr>)"

section \<open>Viewport size and construction\<close>

text \<open>
  \<open>setViewportSize\<close> stores the size and its half, the viewport centre, and forces a
  redraw.  The constructor's initialiser list gives every member its first value
  and the body then calls \<open>setViewportSize(size_px)\<close>.
\<close>

definition setViewportSize :: "Projection \<Rightarrow> QMapControl \<Rightarrow> QSizeF \<Rightarrow> QMapControl" where
  "setViewportSize prj s size_px =
     redrawPrimaryScreen prj True
       (s\<lparr>m_viewport_size_px := size_px,
          m_viewport_center_px := QPointF (width size_px / 2) (height size_px / 2)\<rparr>)"

definition QMapControl_new :: "Projection \<Rightarrow> QSizeF \<Rightarrow> QMapControl" where
  "QMapControl_new prj size_px =
     setViewportSize prj
       \<lparr>m_viewport_size_px = size_px,
        m_viewport_center_px = QPointF (width size_px / 2) (height size_px / 2),
        m_limited_viewport_rect_coord = QRectF 0 0 0 0,
        m_map_focus_coord = QPointF 0 0,
        m_animated_map_focus_point = QPointF 0 0,
        m_animated_steps = 0,
        m_animated_interval = 0,
        m_animated_mutex = False,
        m_zoom_minimum = 0,
        m_zoom_maximum = 17,
        m_current_zoom = 0,
        m_primary_screen_map_focus_point = QPointF 0 0,
        m_primary_screen_backbuffer_rect_px = QRectF 0 0 0 0,
        redraw_jobs = 0,
        animated_ticks_pending = 0\<rparr>
       size_px"

definition resetLimitedViewportRect :: "QMapControl \<Rightarrow> QMapControl" where
  "resetLimitedViewportRect s = s\<lparr>m_limited_viewport_rect_coord := QRectF 0 0 0 0\<rparr>"

definition setLimitedViewportRect :: "QMapControl \<Rightarrow> QPointF \<Rightarrow> QPointF \<Rightarrow> QMapControl" where
  "setLimitedViewportRect s top_left_coord bottom_right_coord =
     s\<lparr>m_limited_viewport_rect_coord := QRectF_corners top_left_coord bottom_right_coord\<rparr>"

section \<open>Focus on a list of points, with auto zoom\<close>

text \<open>
  The loop of \<open>viewportContainsAll\<close> stops at the first point outside the rectangle:
  its condition tests the flag before the index.
\<close>

fun viewportContainsAll_loop :: "QRectF \<Rightarrow> bool \<Rightarrow> QPointF list \<Rightarrow> bool" where
  "viewportContainsAll_loop viewport_rect_coord return_contains_all [] = return_contains_all"
| "viewportContainsAll_loop viewport_rect_coord return_contains_all (p # rest) =
     (if return_contains_all = True
      then viewportContainsAll_loop viewport_rect_coord (contains viewport_rect_coord p) rest
      else return_contains_all)"

definition viewportContainsAll :: "Projection \<Rightarrow> QMapControl \<Rightarrow> QPointF list \<Rightarrow> bool" where
  "viewportContainsAll prj s points_coord =
     viewportContainsAll_loop (getViewportRect prj s) True points_coord"

text \<open>
  \<open>calculateMapFocusPoint\<close> sums the coordinates from \<open>0.0\<close> and divides both sums
  by \<open>points_coord.size()\<close>.  The division is not guarded: for an empty vector it is
  \<open>0.0 / 0\<close>, which is no number, and the model returns \<open>None\<close> there.
\<close>

fun sum_loop :: "real \<times> real \<Rightarrow> QPointF list \<Rightarrow> real \<times> real" where
  "sum_loop (sum_x, sum_y) [] = (sum_x, sum_y)"
| "sum_loop (sum_x, sum_y) (coordinate # rest) =
     sum_loop (sum_x + ptx coordinate, sum_y + pty coordinate) rest"

definition div_size :: "real \<Rightarrow> nat \<Rightarrow> real option" where
  "div_size a n = (if n = 0 then None else Some (a / real n))"

definition calculateMapFocusPoint :: "QPointF list \<Rightarrow> QPointF option" where
  "calculateMapFocusPoint points_coord =
     (case sum_loop (0, 0) points_coord of
        (sum_x, sum_y) \<Rightarrow>
          (case div_size sum_x (length points_coord) of
             None \<Rightarrow> None
           | Some mean_x \<Rightarrow>
               (case div_size sum_y (length points_coord) of
                  None \<Rightarrow> None
                | Some mean_y \<Rightarrow> Some (QPointF mean_x mean_y))))"

text \<open>The two \<open>while\<close> loops of the auto zoom.\<close>

function autoZoom_out_loop :: "Projection \<Rightarrow> QPointF list \<Rightarrow> QMapControl \<Rightarrow> QMapControl" where
  "autoZoom_out_loop prj points_coord s =
     (if viewportContainsAll prj s points_coord = False \<and> m_current_zoom s > m_zoom_minimum s
      then autoZoom_out_loop prj points_coord (zoomOut prj s)
      else s)"
  by pat_completeness auto
termination
  by (relation "measure (\<lambda>(prj, points_coord, s). nat (m_current_zoom s - m_zoom_minimum s))")
    (auto simp: zoomOut_def redrawPrimaryScreen_def)

function autoZoom_in_loop :: "Projection \<Rightarrow> QPointF list \<Rightarrow> QMapControl \<Rightarrow> QMapControl" where
  "autoZoom_in_loop prj points_coord s =
     (if viewportContainsAll prj s points_coord = True \<and> m_current_zoom s < m_zoom_maximum s
      then autoZoom_in_loop prj points_coord (zoomIn prj s)
      else s)"
  by pat_completeness auto
termination
  by (relation "measure (\<lambda>(prj, points_coord, s). nat (m_zoom_maximum s - m_current_zoom s))")
    (auto simp: zoomIn_def redrawPrimaryScreen_def)

declare autoZoom_out_loop.simps [simp del]
declare autoZoom_in_loop.simps [simp del]

text \<open>
  \<open>setMapFocusPoint(points_coord, auto_zoom)\<close>.  The result is \<open>None\<close> exactly when
  the mean of the points is no number (the empty vector), since the focus then
  has no value in this model.
\<close>

definition setMapFocusPoint_points ::
  "Projection \<Rightarrow> QMapControl \<Rightarrow> QPointF list \<Rightarrow> bool \<Rightarrow> QMapControl option" where
  "setMapFocusPoint_points prj s points_coord auto_zoom =
     (case calculateMapFocusPoint points_coord of
        None \<Rightarrow> None
      | Some focus \<Rightarrow>
          let s0 = setMapFocusPoint prj s focus
          in if auto_zoom then
               let s1 = autoZoom_out_loop prj points_coord s0;
                   s2 = autoZoom_in_loop prj points_coord s1
               in if viewportContainsAll prj s2 points_coord = False
                     \<and> m_current_zoom s2 > m_zoom_minimum s2
                  then Some (zoomOut prj s2)
                  else Some s2
             else Some s0)"

section \<open>Animated focus\<close>

text \<open>
  \<open>m_animated_mutex.try_lock()\<close> succeeds exactly when the mutex is free.  On
  success the target, the step count and the interval are stored and a
  single-shot timer is armed; otherwise only a debug message is printed.
\<close>

definition setMapFocusPointAnimated ::
  "Projection \<Rightarrow> QMapControl \<Rightarrow> QPointF \<Rightarrow> int \<Rightarrow> int \<Rightarrow> QMapControl" where
  "setMapFocusPointAnimated prj s coordinate steps step_interval =
     (if \<not> m_animated_mutex s
      then s\<lparr>m_animated_mutex := True,
             m_animated_map_focus_point := coordinate,
             m_animated_steps := steps,
             m_animated_interval := step_interval,
             animated_ticks_pending := animated_ticks_pending s + 1\<rparr>
      else s)"

definition animatedTick :: "Projection \<Rightarrow> QMapControl \<Rightarrow> QMapControl" where
  "animatedTick prj s =
     (if m_animated_steps s > 0 then
        let start_px = toPixelPoint prj (m_map_focus_coord s) (m_current_zoom s);
            dest_px = toPixelPoint prj (m_animated_map_focus_point s) (m_current_zoom s);
            delta_px = dest_px - start_px;
            s1 = scrollView prj s (pt_div delta_px (real_of_int (m_animated_steps s)))
        in s1\<lparr>m_animated_steps := m_animated_steps s1 - 1,
               animated_ticks_pending := animated_ticks_pending s1 + 1\<rparr>
      else s\<lparr>m_animated_mutex := False\<rparr>)"

text \<open>
  The event loop fires one armed timer: the timer is consumed and the slot
  \<open>animatedTick\<close> runs.  With no timer armed nothing happens.
\<close>

definition timerFires :: "Projection \<Rightarrow> QMapControl \<Rightarrow> QMapControl" where
  "timerFires prj s =
     (if animated_ticks_pending s > 0
      then animatedTick prj (s\<lparr>animated_ticks_pending := animated_ticks_pending s - 1\<rparr>)
      else s)"

section \<open>\<open>GeometryLineString\<close>\<close>

text \<open>
  A line string owns its points and the list of points touched by the last
  query.  \<open>geometryClicked_emitted\<close> counts the emissions of the signal
  \<open>geometryClicked\<close>.  \<open>isVisible\<close> (of the base class \<open>Geometry\<close>) and
  \<open>GeometryPoint::touches\<close> are parameters: \<open>is_visible\<close> is the visibility at a zoom
  level and \<open>point_touches\<close> the hit test of one point.
\<close>

record 'p GeometryLineString =
  m_points :: "'p list"
  m_touched_points :: "'p list"
  geometryClicked_emitted :: nat

definition touchedPoints :: "'p GeometryLineString \<Rightarrow> 'p list" where
  "touchedPoints g = m_touched_points g"

text \<open>The loop over \<open>m_points\<close>: it carries the touched list and the return flag.\<close>

fun touches_loop :: "('p \<Rightarrow> bool) \<Rightarrow> 'p list \<Rightarrow> 'p list \<times> bool \<Rightarrow> 'p list \<times> bool" where
  "touches_loop hit [] (touched, return_touches) = (touched, return_touches)"
| "touches_loop hit (point # rest) (touched, return_touches) =
     (if hit point
      then touches_loop hit rest (touched @ [point], True)
      else touches_loop hit rest (touched, return_touches))"

definition touches ::
  "(int \<Rightarrow> bool) \<Rightarrow> ('p \<Rightarrow> 'area \<Rightarrow> int \<Rightarrow> bool) \<Rightarrow> 'p GeometryLineString \<Rightarrow> 'area \<Rightarrow> int
     \<Rightarrow> 'p GeometryLineString \<times> bool" where
  "touches is_visible point_touches g area_px controller_zoom =
     (let g0 = g\<lparr>m_touched_points := []\<rparr>
      in if is_visible controller_zoom then
           (case touches_loop (\<lambda>point. point_touches point area_px controller_zoom)
                   (m_points g0) (m_touched_points g0, False) of
              (touched, return_touches) \<Rightarrow>
                let g1 = g0\<lparr>m_touched_points := touched\<rparr>
                in if return_touches
                   then (g1\<lparr>geometryClicked_emitted := geometryClicked_emitted g1 + 1\<rparr>,
                         return_touches)
                   else (g1, return_touches))
         else (g0, False))"

section \<open>A projection and a control for concrete runs\<close>

text \<open>
  A flat projection, for evaluating the operations on concrete inputs: one
  degree is \<open>2 ^ zoom\<close> pixels in both directions.
\<close>

definition flat_toPixelPoint :: "QPointF \<Rightarrow> int \<Rightarrow> QPointF" where
  "flat_toPixelPoint p zoom = QPointF (ptx p * 2 ^ nat zoom) (pty p * 2 ^ nat zoom)"

definition flat_toCoordinatePoint :: "QPointF \<Rightarrow> int \<Rightarrow> QPointF" where
  "flat_toCoordinatePoint p zoom = QPointF (ptx p / 2 ^ nat zoom) (pty p / 2 ^ nat zoom)"

definition flat :: Projection where
  "flat = \<lparr>toPixelPoint = flat_toPixelPoint, toCoordinatePoint = flat_toCoordinatePoint\<rparr>"

text \<open>A control of 400 by 400 pixels, as the constructor leaves it.\<close>

definition control400 :: QMapControl where
  "control400 = QMapControl_new flat (QSizeF 400 400)"

text \<open>The same control with the focus limited to the square from (-10, -10) to (10, 10).\<close>

definition limited400 :: QMapControl where
  "limited400 = setLimitedViewportRect control400 (QPointF (- 10) (- 10)) (QPointF 10 10)"

section \<open>Evaluation of the concrete control\<close>

lemma control400_eq:
  "control400 =
     \<lparr>m_viewport_size_px = QSizeF 400 400,
      m_viewport_center_px = QPointF 200 200,
      m_limited_viewport_rect_coord = QRectF 0 0 0 0,
      m_map_focus_coord = QPointF 0 0,
      m_animated_map_focus_point = QPointF 0 0,
      m_animated_steps = 0,
      m_animated_interval = 0,
      m_animated_mutex = False,
      m_zoom_minimum = 0,
      m_zoom_maximum = 17,
      m_current_zoom = 0,
      m_primary_screen_map_focus_point = QPointF 0 0,
      m_primary_screen_backbuffer_rect_px = QRectF 0 0 0 0,
      redraw_jobs = 1,
      animated_ticks_pending = 0\<rparr>"
  by (simp add: control400_def QMapControl_new_def setViewportSize_def redrawPrimaryScreen_def)

lemma limited400_eq:
  "limited400 = control400\<lparr>m_limited_viewport_rect_coord := QRectF (- 10) (- 10) 20 20\<rparr>"
  by (simp add: limited400_def setLimitedViewportRect_def QRectF_corners_def)

lemmas flat_simps =
  flat_def flat_toPixelPoint_def flat_toCoordinatePoint_def mapFocusPointPx_def
  getViewportRect_def QRectF_corners_def plus_QPointF_def minus_QPointF_def contains_def
  contains_rect_def toPointPx_def toPointPx_focus_def checkBackbuffer_def
  redrawPrimaryScreen_def viewportContainsAll_def Let_def

section \<open>Pan limit\<close>

text \<open>
  Claim C1, as the code has it.  When a limit rectangle is set (not null) and
  valid, a scroll whose candidate focus lies outside the rectangle is rejected:
  \<open>scrollView\<close> returns the control unchanged, so the focus and every other member
  stay as they were and no redraw is dispatched.  The guard is in \<open>scrollView\<close>
  only: \<open>setMapFocusPoint\<close> itself stores whatever coordinate it is given.
\<close>

theorem pan_limit_rejects_scroll:
  assumes "\<not> isNull (m_limited_viewport_rect_coord s)"
    and "isValid (m_limited_viewport_rect_coord s)"
    and "\<not> contains (m_limited_viewport_rect_coord s)
           (toCoordinatePoint prj (mapFocusPointPx prj s + delta_px) (m_current_zoom s))"
  shows "scrollView prj s delta_px = s
       \<and> m_map_focus_coord (scrollView prj s delta_px) = m_map_focus_coord s
       \<and> m_map_focus_coord (setMapFocusPoint prj s f) = f"
proof -
  have "scrollView prj s delta_px = s"
    using assms by (simp add: scrollView_def Let_def)
  moreover have "m_map_focus_coord (setMapFocusPoint prj s f) = f"
    by (simp add: setMapFocusPoint_def redrawPrimaryScreen_def)
  ultimately show ?thesis by simp
qed

text \<open>
  A run of C1: with the focus at (0, 0), zoom 0 and the limit square of side 20
  around the origin, scrolling by 20 pixels to the right would move the focus to
  (20, 0), outside the square, and is rejected.
\<close>

theorem pan_limit_rejects_scroll_witness:
  "\<not> isNull (m_limited_viewport_rect_coord limited400)
   \<and> isValid (m_limited_viewport_rect_coord limited400)
   \<and> toCoordinatePoint flat (mapFocusPointPx flat limited400 + QPointF 20 0)
        (m_current_zoom limited400) = QPointF 20 0
   \<and> \<not> contains (m_limited_viewport_rect_coord limited400) (QPointF 20 0)
   \<and> scrollView flat limited400 (QPointF 20 0) = limited400"
proof -
  have n: "\<not> isNull (m_limited_viewport_rect_coord limited400)"
    by (simp add: limited400_eq isNull_def)
  have v: "isValid (m_limited_viewport_rect_coord limited400)"
    by (simp add: limited400_eq isValid_def)
  have t: "toCoordinatePoint flat (mapFocusPointPx flat limited400 + QPointF 20 0)
             (m_current_zoom limited400) = QPointF 20 0"
    by (simp add: limited400_eq control400_eq flat_simps)
  have c: "\<not> contains (m_limited_viewport_rect_coord limited400) (QPointF 20 0)"
    by (simp add: limited400_eq contains_def)
  have c': "\<not> contains (m_limited_viewport_rect_coord limited400)
              (toCoordinatePoint flat (mapFocusPointPx flat limited400 + QPointF 20 0)
                 (m_current_zoom limited400))"
    unfolding t by (rule c)
  from pan_limit_rejects_scroll [OF n v c'] n v t c show ?thesis by simp
qed

text \<open>
  The direct call is not guarded: on the same control, \<open>setMapFocusPoint\<close> with the
  coordinate (20, 20), which is outside the valid limit square, moves the focus
  there.
\<close>

theorem setMapFocusPoint_ignores_pan_limit:
  "\<not> isNull (m_limited_viewport_rect_coord limited400)
   \<and> isValid (m_limited_viewport_rect_coord limited400)
   \<and> \<not> contains (m_limited_viewport_rect_coord limited400) (QPointF 20 20)
   \<and> m_map_focus_coord limited400 = QPointF 0 0
   \<and> m_map_focus_coord (setMapFocusPoint flat limited400 (QPointF 20 20)) = QPointF 20 20"
  by (simp add: limited400_eq control400_eq isNull_def isValid_def contains_def
      setMapFocusPoint_def redrawPrimaryScreen_def)

section \<open>Zooming in and out again\<close>

lemma zoomOut_zoomIn:
  "m_zoom_minimum s \<le> m_current_zoom s \<Longrightarrow> m_current_zoom s < m_zoom_maximum s \<Longrightarrow>
   zoomOut prj (zoomIn prj s) = s\<lparr>redraw_jobs := redraw_jobs s + 2\<rparr>"
  by (simp add: zoomOut_def zoomIn_def redrawPrimaryScreen_def)

text \<open>
  Claim C3, as the code has it.  In every state within the bounds,
  \<open>zoomMin \<le> zoomCurrent \<le> zoomMax\<close>, \<open>zoomIn()\<close> followed by \<open>zoomOut()\<close> restores
  \<open>zoomCurrent\<close> when \<open>zoomCurrent < zoomMax\<close>, and also when the two bounds are
  equal.  At the maximum of a proper range \<open>zoomIn()\<close> does nothing, so the pair as a
  whole is one step out.
\<close>

theorem zoomIn_zoomOut_restores:
  assumes "m_zoom_minimum s \<le> m_current_zoom s"
    and "m_current_zoom s \<le> m_zoom_maximum s"
  shows "m_current_zoom (zoomOut prj (zoomIn prj s))
           = (if m_current_zoom s < m_zoom_maximum s \<or> m_zoom_minimum s = m_zoom_maximum s
              then m_current_zoom s
              else m_current_zoom s - 1)"
  using assms by (auto simp add: zoomOut_def zoomIn_def redrawPrimaryScreen_def)

text \<open>
  A run of C3 on the fresh control, at zoom 0 of the range from 0 to 17: the zoom
  goes to 1 and back to 0.
\<close>

theorem zoomIn_zoomOut_restores_witness:
  "m_zoom_minimum control400 \<le> m_current_zoom control400
   \<and> m_current_zoom control400 \<le> m_zoom_maximum control400
   \<and> m_current_zoom control400 < m_zoom_maximum control400
   \<and> m_current_zoom (zoomIn flat control400) = 1
   \<and> m_current_zoom (zoomOut flat (zoomIn flat control400)) = m_current_zoom control400"
proof -
  have lo: "m_zoom_minimum control400 \<le> m_current_zoom control400"
    by (simp add: control400_eq)
  have hi: "m_current_zoom control400 \<le> m_zoom_maximum control400"
    by (simp add: control400_eq)
  have lt: "m_current_zoom control400 < m_zoom_maximum control400"
    by (simp add: control400_eq)
  have one: "m_current_zoom (zoomIn flat control400) = 1"
    by (simp add: control400_eq zoomIn_def redrawPrimaryScreen_def)
  from zoomIn_zoomOut_restores [OF lo hi, of flat] lo hi lt one show ?thesis by simp
qed

text \<open>
  At the maximum the pair does not restore the zoom: \<open>setZoom(17)\<close> brings the
  control to zoom 17, the maximum; \<open>zoomIn()\<close> then \<open>zoomOut()\<close> leave it at 16.
\<close>

theorem zoomIn_zoomOut_at_maximum:
  "m_zoom_minimum (setZoom flat control400 17) = 0
   \<and> m_zoom_maximum (setZoom flat control400 17) = 17
   \<and> m_current_zoom (setZoom flat control400 17) = 17
   \<and> m_current_zoom (zoomOut flat (zoomIn flat (setZoom flat control400 17))) = 16"
proof -
  have "setZoom flat control400 17 = control400\<lparr>m_current_zoom := 17, redraw_jobs := 18\<rparr>"
    by (simp add: setZoom_def control400_eq setZoom_in_loop.simps zoomIn_def
        redrawPrimaryScreen_def)
  then have "setZoom flat control400 17
               = control400\<lparr>m_current_zoom := 17, redraw_jobs := 18\<rparr>
             \<and> m_zoom_minimum control400 = 0 \<and> m_zoom_maximum control400 = 17"
    by (simp add: control400_eq)
  then show ?thesis
    by (simp add: zoomIn_def zoomOut_def redrawPrimaryScreen_def)
qed

section \<open>Viewport pixels to map pixels\<close>

text \<open>
  Claim C6.  For every viewport pixel point \<open>p\<close> the conversion with an explicit
  reference focus \<open>f\<close> returns \<open>p - viewportCenter + f\<close>, coordinate by
  coordinate, and the conversion without one uses the current focus coordinate
  converted by the projection at the current zoom.
\<close>

theorem toPointPx_formula:
  "ptx (toPointPx_focus s p f) = ptx p - ptx (m_viewport_center_px s) + ptx f
   \<and> pty (toPointPx_focus s p f) = pty p - pty (m_viewport_center_px s) + pty f
   \<and> toPointPx prj s p
       = toPointPx_focus s p (toPixelPoint prj (m_map_focus_coord s) (m_current_zoom s))
   \<and> toPointPx prj s p
       = p - m_viewport_center_px s + toPixelPoint prj (m_map_focus_coord s) (m_current_zoom s)"
  by (simp add: toPointPx_def toPointPx_focus_def mapFocusPointPx_def plus_QPointF_def
      minus_QPointF_def)

section \<open>The mean of the points\<close>

lemma sum_loop_eq:
  "sum_loop (a, b) ps = (a + sum_list (map ptx ps), b + sum_list (map pty ps))"
  by (induction ps arbitrary: a b) (auto simp: algebra_simps)

lemma calculateMapFocusPoint_eq:
  "calculateMapFocusPoint ps =
     (if ps = [] then None
      else Some (QPointF (sum_list (map ptx ps) / real (length ps))
                   (sum_list (map pty ps) / real (length ps))))"
  by (simp add: calculateMapFocusPoint_def sum_loop_eq div_size_def)

text \<open>
  Claim C10.  For a non-empty list \<open>calculateMapFocusPoint\<close> returns the mean of
  the x coordinates and the mean of the y coordinates.  Nothing guards the
  division by the size of the list: for the empty list there is no mean, and
  \<open>setMapFocusPoint(points, autoZoom)\<close> has a focus to set exactly when the list is
  not empty.
\<close>

theorem calculateMapFocusPoint_mean:
  "calculateMapFocusPoint points_coord =
     (if points_coord = [] then None
      else Some (QPointF (sum_list (map ptx points_coord) / real (length points_coord))
                   (sum_list (map pty points_coord) / real (length points_coord))))
   \<and> (setMapFocusPoint_points prj s points_coord auto_zoom = None) = (points_coord = [])"
  by (simp add: calculateMapFocusPoint_eq setMapFocusPoint_points_def Let_def)

section \<open>Touched points of a line string\<close>

lemma touches_loop_eq:
  "touches_loop hit ps (acc, r) = (acc @ filter hit ps, r \<or> filter hit ps \<noteq> [])"
  by (induction ps arbitrary: acc r) auto

text \<open>
  Claim C7.  After \<open>touches(area, zoom)\<close> the touched points are exactly the points
  of the line string that touch the area at that zoom, in the order of the line
  string, and none when the line string is not visible at that zoom; what the
  list held before the call plays no part.  The call returns true exactly when
  that list is not empty, and it leaves the points of the line string alone.
\<close>

theorem touches_replaces_touched_points:
  "touchedPoints (fst (touches is_visible point_touches g area_px controller_zoom))
     = (if is_visible controller_zoom
        then filter (\<lambda>point. point_touches point area_px controller_zoom) (m_points g)
        else [])
   \<and> snd (touches is_visible point_touches g area_px controller_zoom)
     = (touchedPoints (fst (touches is_visible point_touches g area_px controller_zoom)) \<noteq> [])
   \<and> m_points (fst (touches is_visible point_touches g area_px controller_zoom)) = m_points g"
  by (simp add: touches_def touchedPoints_def touches_loop_eq Let_def)

text \<open>
  A run of C7 with integer points, an area that a point touches when it is at
  least the area's number, and a line string that still holds the stale list
  \<open>[1, 2, 3]\<close>: the query for area 3 leaves \<open>[3, 5]\<close> and returns true; a second
  query, for area 9, on the line string the first one left behind leaves nothing
  and returns false.
\<close>

theorem touches_replaces_touched_points_witness:
  "touchedPoints
     (fst (touches (\<lambda>zoom. True) (\<lambda>point area zoom. area \<le> point)
             \<lparr>m_points = [1, 3, 2, 5 :: int], m_touched_points = [1, 2, 3],
              geometryClicked_emitted = 0\<rparr> (3 :: int) 0)) = [3, 5]
   \<and> snd (touches (\<lambda>zoom. True) (\<lambda>point area zoom. area \<le> point)
             \<lparr>m_points = [1, 3, 2, 5 :: int], m_touched_points = [1, 2, 3],
              geometryClicked_emitted = 0\<rparr> (3 :: int) 0)
   \<and> touchedPoints
       (fst (touches (\<lambda>zoom. True) (\<lambda>point area zoom. area \<le> point)
               (fst (touches (\<lambda>zoom. True) (\<lambda>point area zoom. area \<le> point)
                       \<lparr>m_points = [1, 3, 2, 5 :: int], m_touched_points = [1, 2, 3],
                        geometryClicked_emitted = 0\<rparr> (3 :: int) 0))
               (9 :: int) 0)) = []
   \<and> snd (touches (\<lambda>zoom. True) (\<lambda>point area zoom. area \<le> point)
             (fst (touches (\<lambda>zoom. True) (\<lambda>point area zoom. area \<le> point)
                     \<lparr>m_points = [1, 3, 2, 5 :: int], m_touched_points = [1, 2, 3],
                      geometryClicked_emitted = 0\<rparr> (3 :: int) 0))
             (9 :: int) 0) = False"
proof -
  let ?g0 = "\<lparr>m_points = [1, 3, 2, 5 :: int], m_touched_points = [1, 2, 3],
             geometryClicked_emitted = 0\<rparr>"
  let ?vis = "\<lambda>zoom :: int. True"
  let ?hit = "\<lambda>(point :: int) (area :: int) (zoom :: int). area \<le> point"
  let ?g1 = "fst (touches ?vis ?hit ?g0 3 0)"
  note first = touches_replaces_touched_points [of ?vis ?hit ?g0 3 0]
  note second = touches_replaces_touched_points [of ?vis ?hit ?g1 9 0]
  have pts: "m_points ?g1 = [1, 3, 2, 5]"
    using first by simp
  have a: "touchedPoints ?g1 = [3, 5]"
    using first by simp
  have b: "snd (touches ?vis ?hit ?g0 3 0)"
    using first a by simp
  have c: "touchedPoints (fst (touches ?vis ?hit ?g1 9 0)) = []"
    using second by (simp add: pts)
  have d: "snd (touches ?vis ?hit ?g1 9 0) = False"
    using second c by simp
  from a b c d show ?thesis by simp
qed

section \<open>The backbuffer after a forced redraw\<close>

lemma contains_rect_iff:
  "contains_rect a b \<longleftrightarrow>
     rw a \<noteq> 0 \<and> rw b \<noteq> 0 \<and> rh a \<noteq> 0 \<and> rh b \<noteq> 0 \<and>
     min (xp a) (xp a + rw a) \<le> min (xp b) (xp b + rw b) \<and>
     max (xp b) (xp b + rw b) \<le> max (xp a) (xp a + rw a) \<and>
     min (yp a) (yp a + rh a) \<le> min (yp b) (yp b + rh b) \<and>
     max (yp b) (yp b + rh b) \<le> max (yp a) (yp a + rh a)"
  unfolding contains_rect_def Let_def by (auto simp: min_def max_def)

text \<open>
  \<open>setViewportSize\<close>, which the constructor ends with, leaves the centre at half
  the size.  No other operation writes either member.
\<close>

lemma setViewportSize_center:
  "m_viewport_center_px (setViewportSize prj s size_px)
     = QPointF (width (m_viewport_size_px (setViewportSize prj s size_px)) / 2)
         (height (m_viewport_size_px (setViewportSize prj s size_px)) / 2)"
  by (simp add: setViewportSize_def redrawPrimaryScreen_def)

text \<open>
  A redraw job that gets the lock captures the current focus in map pixels.  The
  rectangle it draws contains the rectangle the viewport requires at that focus
  exactly when the viewport has a width and a height other than zero; and once
  the slot has published the job's result, \<open>checkBackbuffer\<close> asks for a redraw
  exactly when the width or the height is zero.
\<close>

lemma redraw_job_covers_viewport:
  assumes "m_viewport_center_px s
             = QPointF (width (m_viewport_size_px s) / 2) (height (m_viewport_size_px s) / 2)"
  shows "redrawBackbuffer prj s True
           = Some (QRectF_corners
                     (toPointPx_focus s (QPointF 0 0 - m_viewport_center_px s)
                        (mapFocusPointPx prj s))
                     (toPointPx_focus s
                        (QPointF (width (m_viewport_size_px s)) (height (m_viewport_size_px s))
                           + m_viewport_center_px s)
                        (mapFocusPointPx prj s)),
                   mapFocusPointPx prj s)"
    and "contains_rect
           (QRectF_corners
              (toPointPx_focus s (QPointF 0 0 - m_viewport_center_px s) (mapFocusPointPx prj s))
              (toPointPx_focus s
                 (QPointF (width (m_viewport_size_px s)) (height (m_viewport_size_px s))
                    + m_viewport_center_px s)
                 (mapFocusPointPx prj s)))
           (QRectF_corners (toPointPx_focus s (QPointF 0 0) (mapFocusPointPx prj s))
              (toPointPx_focus s
                 (QPointF (width (m_viewport_size_px s)) (height (m_viewport_size_px s)))
                 (mapFocusPointPx prj s)))
         = (width (m_viewport_size_px s) \<noteq> 0 \<and> height (m_viewport_size_px s) \<noteq> 0)"
    and "checkBackbuffer prj (runRedrawJob prj s True)
         = (width (m_viewport_size_px s) = 0 \<or> height (m_viewport_size_px s) = 0)"
proof -
  let ?f = "mapFocusPointPx prj s"
  let ?need = "QRectF_corners (toPointPx_focus s (QPointF 0 0) ?f)
                 (toPointPx_focus s
                    (QPointF (width (m_viewport_size_px s)) (height (m_viewport_size_px s))) ?f)"
  let ?have = "QRectF_corners
                 (toPointPx_focus s (QPointF 0 0 - m_viewport_center_px s) ?f)
                 (toPointPx_focus s
                    (QPointF (width (m_viewport_size_px s)) (height (m_viewport_size_px s))
                       + m_viewport_center_px s) ?f)"
  show job: "redrawBackbuffer prj s True = Some (?have, ?f)"
    by (simp add: redrawBackbuffer_def Let_def)
  show inside: "contains_rect ?have ?need
                  = (width (m_viewport_size_px s) \<noteq> 0 \<and> height (m_viewport_size_px s) \<noteq> 0)"
    by (simp add: contains_rect_iff assms toPointPx_focus_def QRectF_corners_def
        plus_QPointF_def minus_QPointF_def)
      (auto simp: min_def max_def)
  have published: "runRedrawJob prj s True = updatePrimaryScreen s ?have ?f"
    by (simp add: runRedrawJob_def job)
  have "checkBackbuffer prj (updatePrimaryScreen s ?have ?f) = (\<not> contains_rect ?have ?need)"
    by (simp add: checkBackbuffer_def updatePrimaryScreen_def toPointPx_def
        toPointPx_focus_def mapFocusPointPx_def Let_def)
  with inside published
  show "checkBackbuffer prj (runRedrawJob prj s True)
          = (width (m_viewport_size_px s) = 0 \<or> height (m_viewport_size_px s) = 0)"
    by simp
qed

text \<open>
  Claim C5, as the code has it.  Take a control whose viewport centre is half its
  viewport size.  A forced \<open>redrawPrimaryScreen\<close> dispatches one redraw job.  When
  that job gets the lock, it captures the current focus in map pixels.  If the
  viewport has a width and a height other than zero, the rectangle the job draws
  contains the rectangle the viewport requires at that focus, and once the job's
  result is published \<open>checkBackbuffer\<close> reports that no redraw is needed.  If the
  width or the height is zero, \<open>QRectF::contains\<close> is false for the empty required
  rectangle and \<open>checkBackbuffer\<close> goes on asking for a redraw.
\<close>

theorem backbuffer_covers_viewport:
  assumes "m_viewport_center_px s
             = QPointF (width (m_viewport_size_px s) / 2) (height (m_viewport_size_px s) / 2)"
  shows "redraw_jobs (redrawPrimaryScreen prj True s) = redraw_jobs s + 1
       \<and> (case redrawBackbuffer prj (redrawPrimaryScreen prj True s) True of
            None \<Rightarrow> False
          | Some (backbuffer_rect_px, backbuffer_map_focus_px) \<Rightarrow>
              backbuffer_map_focus_px = mapFocusPointPx prj s
              \<and> contains_rect backbuffer_rect_px
                  (QRectF_corners
                     (toPointPx_focus s (QPointF 0 0) backbuffer_map_focus_px)
                     (toPointPx_focus s
                        (QPointF (width (m_viewport_size_px s)) (height (m_viewport_size_px s)))
                        backbuffer_map_focus_px))
                = (width (m_viewport_size_px s) \<noteq> 0 \<and> height (m_viewport_size_px s) \<noteq> 0))
       \<and> checkBackbuffer prj (runRedrawJob prj (redrawPrimaryScreen prj True s) True)
           = (width (m_viewport_size_px s) = 0 \<or> height (m_viewport_size_px s) = 0)"
proof -
  let ?d = "s\<lparr>redraw_jobs := redraw_jobs s + 1\<rparr>"
  have forced: "redrawPrimaryScreen prj True s = ?d"
    by (simp add: redrawPrimaryScreen_def)
  have c: "m_viewport_center_px ?d
             = QPointF (width (m_viewport_size_px ?d) / 2) (height (m_viewport_size_px ?d) / 2)"
    using assms by simp
  have px: "mapFocusPointPx prj (s\<lparr>redraw_jobs := n\<rparr>) = mapFocusPointPx prj s" for n
    by (simp add: mapFocusPointPx_def)
  have tp: "toPointPx_focus (s\<lparr>redraw_jobs := n\<rparr>) = toPointPx_focus s" for n
    by (simp add: toPointPx_focus_def fun_eq_iff)
  note general = redraw_job_covers_viewport [OF c, of prj]
  have job: "redrawBackbuffer prj ?d True
               = Some (QRectF_corners
                     (toPointPx_focus s (QPointF 0 0 - m_viewport_center_px s)
                        (mapFocusPointPx prj s))
                     (toPointPx_focus s
                        (QPointF (width (m_viewport_size_px s)) (height (m_viewport_size_px s))
                           + m_viewport_center_px s)
                        (mapFocusPointPx prj s)),
                   mapFocusPointPx prj s)"
    using general(1) by (simp add: px tp)
  have inside: "contains_rect
           (QRectF_corners
              (toPointPx_focus s (QPointF 0 0 - m_viewport_center_px s) (mapFocusPointPx prj s))
              (toPointPx_focus s
                 (QPointF (width (m_viewport_size_px s)) (height (m_viewport_size_px s))
                    + m_viewport_center_px s)
                 (mapFocusPointPx prj s)))
           (QRectF_corners (toPointPx_focus s (QPointF 0 0) (mapFocusPointPx prj s))
              (toPointPx_focus s
                 (QPointF (width (m_viewport_size_px s)) (height (m_viewport_size_px s)))
                 (mapFocusPointPx prj s)))
         = (width (m_viewport_size_px s) \<noteq> 0 \<and> height (m_viewport_size_px s) \<noteq> 0)"
    using general(2) by (simp add: px tp)
  have stale: "checkBackbuffer prj (runRedrawJob prj ?d True)
                 = (width (m_viewport_size_px s) = 0 \<or> height (m_viewport_size_px s) = 0)"
    using general(3) by simp
  show ?thesis
    unfolding forced job using inside stale by simp
qed

text \<open>
  A run of C5 on the control of 400 by 400 pixels with the focus at the origin:
  the job draws the square from (-400, -400) to (400, 400), which contains the
  required square from (-200, -200) to (200, 200).
\<close>

theorem backbuffer_covers_viewport_witness:
  "m_viewport_center_px control400
     = QPointF (width (m_viewport_size_px control400) / 2)
         (height (m_viewport_size_px control400) / 2)
   \<and> width (m_viewport_size_px control400) \<noteq> 0
   \<and> height (m_viewport_size_px control400) \<noteq> 0
   \<and> redrawBackbuffer flat (redrawPrimaryScreen flat True control400) True
       = Some (QRectF (- 400) (- 400) 800 800, QPointF 0 0)
   \<and> checkBackbuffer flat (runRedrawJob flat (redrawPrimaryScreen flat True control400) True)
       = False"
proof -
  have c: "m_viewport_center_px control400
             = QPointF (width (m_viewport_size_px control400) / 2)
                 (height (m_viewport_size_px control400) / 2)"
    unfolding control400_def QMapControl_new_def by (rule setViewportSize_center)
  have w: "width (m_viewport_size_px control400) \<noteq> 0"
    by (simp add: control400_eq)
  have h: "height (m_viewport_size_px control400) \<noteq> 0"
    by (simp add: control400_eq)
  have job: "redrawBackbuffer flat (redrawPrimaryScreen flat True control400) True
               = Some (QRectF (- 400) (- 400) 800 800, QPointF 0 0)"
    by (simp add: redrawBackbuffer_def redrawPrimaryScreen_def control400_eq flat_def
        flat_toPixelPoint_def mapFocusPointPx_def toPointPx_focus_def QRectF_corners_def
        plus_QPointF_def minus_QPointF_def Let_def)
  from backbuffer_covers_viewport [OF c, of flat] c w h job show ?thesis by simp
qed

text \<open>
  With a viewport of zero size the check after a published forced redraw still
  asks for a redraw: the required rectangle is empty, and \<open>QRectF::contains\<close> is
  false for an empty rectangle.
\<close>

theorem backbuffer_stale_for_empty_viewport:
  "m_viewport_center_px (QMapControl_new flat (QSizeF 0 0))
     = QPointF (width (m_viewport_size_px (QMapControl_new flat (QSizeF 0 0))) / 2)
         (height (m_viewport_size_px (QMapControl_new flat (QSizeF 0 0))) / 2)
   \<and> redrawBackbuffer flat
        (redrawPrimaryScreen flat True (QMapControl_new flat (QSizeF 0 0))) True
       = Some (QRectF 0 0 0 0, QPointF 0 0)
   \<and> checkBackbuffer flat
        (runRedrawJob flat
           (redrawPrimaryScreen flat True (QMapControl_new flat (QSizeF 0 0))) True)
       = True"
  by (simp add: checkBackbuffer_def runRedrawJob_def redrawBackbuffer_def
      updatePrimaryScreen_def Let_def contains_rect_def QMapControl_new_def
      setViewportSize_def redrawPrimaryScreen_def toPointPx_def toPointPx_focus_def
      mapFocusPointPx_def QRectF_corners_def plus_QPointF_def minus_QPointF_def flat_def
      flat_toPixelPoint_def)

section \<open>Auto zoom\<close>

lemma viewportContainsAll_loop_iff:
  "viewportContainsAll_loop r b ps \<longleftrightarrow> b \<and> (\<forall>p\<in>set ps. contains r p)"
  by (induction ps arbitrary: b) auto

lemma viewportContainsAll_iff:
  "viewportContainsAll prj s ps \<longleftrightarrow> (\<forall>p\<in>set ps. contains (getViewportRect prj s) p)"
  by (simp add: viewportContainsAll_def viewportContainsAll_loop_iff)

lemma viewportContainsAll_redraw_jobs:
  "viewportContainsAll prj (s\<lparr>redraw_jobs := n\<rparr>) ps = viewportContainsAll prj s ps"
  by (simp add: viewportContainsAll_def getViewportRect_def mapFocusPointPx_def)

lemma zoomOut_minimum:
  "m_zoom_minimum (zoomOut prj s) = m_zoom_minimum s"
  by (simp add: zoomOut_def redrawPrimaryScreen_def)

lemma zoomIn_minimum:
  "m_zoom_minimum (zoomIn prj s) = m_zoom_minimum s"
  by (simp add: zoomIn_def redrawPrimaryScreen_def)

lemma zoomOut_keeps_lower:
  "m_zoom_minimum s \<le> m_current_zoom s \<Longrightarrow> m_zoom_minimum s \<le> m_current_zoom (zoomOut prj s)"
  by (simp add: zoomOut_def redrawPrimaryScreen_def)

lemma zoomIn_current:
  "m_current_zoom s < m_zoom_maximum s \<Longrightarrow> m_current_zoom (zoomIn prj s) = m_current_zoom s + 1"
  by (simp add: zoomIn_def redrawPrimaryScreen_def)

text \<open>
  The first loop keeps the minimum, stays at or above it, and ends either with
  all points in the viewport or at (or below) the minimum.
\<close>

lemma autoZoom_out_loop_post:
  "m_zoom_minimum (autoZoom_out_loop prj ps s) = m_zoom_minimum s \<and>
   (m_zoom_minimum s \<le> m_current_zoom s \<longrightarrow>
      m_zoom_minimum s \<le> m_current_zoom (autoZoom_out_loop prj ps s)) \<and>
   (viewportContainsAll prj (autoZoom_out_loop prj ps s) ps
      \<or> m_current_zoom (autoZoom_out_loop prj ps s) \<le> m_zoom_minimum s)"
proof (induction prj ps s rule: autoZoom_out_loop.induct)
  case (1 prj ps s)
  show ?case
  proof (cases "viewportContainsAll prj s ps = False \<and> m_current_zoom s > m_zoom_minimum s")
    case True
    then have eq: "autoZoom_out_loop prj ps s = autoZoom_out_loop prj ps (zoomOut prj s)"
      by (subst autoZoom_out_loop.simps) simp
    from "1.IH" [OF True] show ?thesis
      unfolding eq using zoomOut_keeps_lower [of s prj] by (simp add: zoomOut_minimum)
  next
    case False
    have eq: "autoZoom_out_loop prj ps s = s"
      using False by (subst autoZoom_out_loop.simps) auto
    from False show ?thesis unfolding eq by auto
  qed
qed

text \<open>
  The second loop either does not move, or its last step was a \<open>zoomIn\<close> from a
  state, below the maximum, in which the viewport contained all points.
\<close>

lemma autoZoom_in_loop_post:
  "(autoZoom_in_loop prj ps s = s
      \<and> \<not> (viewportContainsAll prj s ps \<and> m_current_zoom s < m_zoom_maximum s))
   \<or> (\<exists>s'. autoZoom_in_loop prj ps s = zoomIn prj s' \<and> viewportContainsAll prj s' ps
          \<and> m_current_zoom s' < m_zoom_maximum s'
          \<and> m_zoom_minimum s' = m_zoom_minimum s
          \<and> (m_zoom_minimum s \<le> m_current_zoom s \<longrightarrow> m_zoom_minimum s' \<le> m_current_zoom s'))"
proof (induction prj ps s rule: autoZoom_in_loop.induct)
  case (1 prj ps s)
  show ?case
  proof (cases "viewportContainsAll prj s ps = True \<and> m_current_zoom s < m_zoom_maximum s")
    case True
    then have eq: "autoZoom_in_loop prj ps s = autoZoom_in_loop prj ps (zoomIn prj s)"
      by (subst autoZoom_in_loop.simps) simp
    have low: "m_zoom_minimum s \<le> m_current_zoom s
                 \<Longrightarrow> m_zoom_minimum (zoomIn prj s) \<le> m_current_zoom (zoomIn prj s)"
      using True by (simp add: zoomIn_current zoomIn_minimum)
    from "1.IH" [OF True] show ?thesis
    proof
      assume "autoZoom_in_loop prj ps (zoomIn prj s) = zoomIn prj s \<and>
        \<not> (viewportContainsAll prj (zoomIn prj s) ps
             \<and> m_current_zoom (zoomIn prj s) < m_zoom_maximum (zoomIn prj s))"
      then have "autoZoom_in_loop prj ps s = zoomIn prj s"
        unfolding eq by simp
      with True show ?thesis by blast
    next
      assume "\<exists>s'. autoZoom_in_loop prj ps (zoomIn prj s) = zoomIn prj s'
          \<and> viewportContainsAll prj s' ps
          \<and> m_current_zoom s' < m_zoom_maximum s'
          \<and> m_zoom_minimum s' = m_zoom_minimum (zoomIn prj s)
          \<and> (m_zoom_minimum (zoomIn prj s) \<le> m_current_zoom (zoomIn prj s)
               \<longrightarrow> m_zoom_minimum s' \<le> m_current_zoom s')"
      then obtain s' where s': "autoZoom_in_loop prj ps (zoomIn prj s) = zoomIn prj s'"
          "viewportContainsAll prj s' ps" "m_current_zoom s' < m_zoom_maximum s'"
          "m_zoom_minimum s' = m_zoom_minimum (zoomIn prj s)"
          "m_zoom_minimum (zoomIn prj s) \<le> m_current_zoom (zoomIn prj s)
             \<longrightarrow> m_zoom_minimum s' \<le> m_current_zoom s'"
        by blast
      have "m_zoom_minimum s \<le> m_current_zoom s \<longrightarrow> m_zoom_minimum s' \<le> m_current_zoom s'"
        using s'(5) low by blast
      with s'(1-4) show ?thesis
        unfolding eq by (auto simp add: zoomIn_minimum)
    qed
  next
    case False
    have eq: "autoZoom_in_loop prj ps s = s"
      using False by (subst autoZoom_in_loop.simps) auto
    from False show ?thesis unfolding eq by simp
  qed
qed

text \<open>
  The three stages of the auto zoom.  From any state they end with all points in
  the viewport or with the zoom at or below the minimum; from a state at or above
  the minimum, with all points in the viewport or with the zoom at the minimum.
\<close>

lemma autoZoom_post:
  fixes prj :: Projection and ps :: "QPointF list" and start :: QMapControl
  defines "s1 \<equiv> autoZoom_out_loop prj ps start"
  defines "s2 \<equiv> autoZoom_in_loop prj ps s1"
  defines "s3 \<equiv> (if viewportContainsAll prj s2 ps = False \<and> m_current_zoom s2 > m_zoom_minimum s2
                 then zoomOut prj s2 else s2)"
  shows "viewportContainsAll prj s3 ps \<or> m_current_zoom s3 \<le> m_zoom_minimum s3"
    and "m_zoom_minimum start \<le> m_current_zoom start \<Longrightarrow>
         viewportContainsAll prj s3 ps \<or> m_current_zoom s3 = m_zoom_minimum s3"
proof -
  have low1: "m_zoom_minimum start \<le> m_current_zoom start \<Longrightarrow> m_zoom_minimum s1 \<le> m_current_zoom s1"
    and out: "viewportContainsAll prj s1 ps \<or> m_current_zoom s1 \<le> m_zoom_minimum s1"
    using autoZoom_out_loop_post [of prj ps start] unfolding s1_def by simp_all
  have both: "(viewportContainsAll prj s3 ps \<or> m_current_zoom s3 \<le> m_zoom_minimum s3)
      \<and> (m_zoom_minimum s1 \<le> m_current_zoom s1 \<longrightarrow>
           viewportContainsAll prj s3 ps \<or> m_current_zoom s3 = m_zoom_minimum s3)"
    using autoZoom_in_loop_post [of prj ps s1]
  proof
    assume "autoZoom_in_loop prj ps s1 = s1 \<and>
      \<not> (viewportContainsAll prj s1 ps \<and> m_current_zoom s1 < m_zoom_maximum s1)"
    then have s2: "s2 = s1" unfolding s2_def by simp
    show ?thesis
    proof (cases "viewportContainsAll prj s1 ps")
      case True
      then show ?thesis unfolding s3_def s2 by simp
    next
      case False
      with out have "m_current_zoom s1 \<le> m_zoom_minimum s1" by simp
      with False show ?thesis unfolding s3_def s2 by simp
    qed
  next
    assume "\<exists>s'. autoZoom_in_loop prj ps s1 = zoomIn prj s' \<and> viewportContainsAll prj s' ps
          \<and> m_current_zoom s' < m_zoom_maximum s'
          \<and> m_zoom_minimum s' = m_zoom_minimum s1
          \<and> (m_zoom_minimum s1 \<le> m_current_zoom s1 \<longrightarrow> m_zoom_minimum s' \<le> m_current_zoom s')"
    then obtain s' where s2: "s2 = zoomIn prj s'" and c: "viewportContainsAll prj s' ps"
      and lt: "m_current_zoom s' < m_zoom_maximum s'"
      and low': "m_zoom_minimum s1 \<le> m_current_zoom s1 \<Longrightarrow> m_zoom_minimum s' \<le> m_current_zoom s'"
      unfolding s2_def by blast
    have cur2: "m_current_zoom s2 = m_current_zoom s' + 1"
      and min2: "m_zoom_minimum s2 = m_zoom_minimum s'"
      unfolding s2 using lt by (simp_all add: zoomIn_current zoomIn_minimum)
    show ?thesis
    proof (cases "viewportContainsAll prj s2 ps = False \<and> m_current_zoom s2 > m_zoom_minimum s2")
      case True
      then have ge: "m_zoom_minimum s' \<le> m_current_zoom s'"
        using cur2 min2 by simp
      from True have "s3 = zoomOut prj (zoomIn prj s')"
        unfolding s3_def s2 by simp
      then have "s3 = s'\<lparr>redraw_jobs := redraw_jobs s' + 2\<rparr>"
        using zoomOut_zoomIn [OF ge lt] by simp
      with c show ?thesis by (simp add: viewportContainsAll_redraw_jobs)
    next
      case False
      then have s3: "s3 = s2" unfolding s3_def by auto
      show ?thesis
      proof (cases "viewportContainsAll prj s2 ps")
        case True
        then show ?thesis unfolding s3 by simp
      next
        case no: False
        with False have le: "m_current_zoom s2 \<le> m_zoom_minimum s2" by simp
        have "\<not> m_zoom_minimum s1 \<le> m_current_zoom s1"
        proof
          assume "m_zoom_minimum s1 \<le> m_current_zoom s1"
          from low' [OF this] le cur2 min2 show False by simp
        qed
        with le show ?thesis unfolding s3 by simp
      qed
    qed
  qed
  from both show "viewportContainsAll prj s3 ps \<or> m_current_zoom s3 \<le> m_zoom_minimum s3"
    by simp
  assume "m_zoom_minimum start \<le> m_current_zoom start"
  from both low1 [OF this]
  show "viewportContainsAll prj s3 ps \<or> m_current_zoom s3 = m_zoom_minimum s3"
    by simp
qed

text \<open>
  The constructor starts at the minimum, and the zoom operations never take a
  control that is at or above its minimum below it.
\<close>

lemma setZoom_out_loop_lower:
  "m_zoom_minimum s \<le> m_current_zoom s \<Longrightarrow>
   m_zoom_minimum (setZoom_out_loop prj i zoom s) = m_zoom_minimum s
   \<and> m_zoom_minimum s \<le> m_current_zoom (setZoom_out_loop prj i zoom s)"
proof (induction prj i zoom s rule: setZoom_out_loop.induct)
  case (1 prj i zoom s)
  show ?case
  proof (cases "i > zoom")
    case True
    from "1.IH" [OF True] zoomOut_keeps_lower [OF "1.prems", of prj] show ?thesis
      by (subst (1 2) setZoom_out_loop.simps) (simp add: True zoomOut_minimum)
  next
    case False
    with "1.prems" show ?thesis
      by (subst (1 2) setZoom_out_loop.simps) simp
  qed
qed

lemma zoomIn_keeps_lower:
  "m_zoom_minimum s \<le> m_current_zoom s \<Longrightarrow> m_zoom_minimum s \<le> m_current_zoom (zoomIn prj s)"
  by (simp add: zoomIn_def redrawPrimaryScreen_def)

lemma setZoom_in_loop_lower:
  "m_zoom_minimum s \<le> m_current_zoom s \<Longrightarrow>
   m_zoom_minimum (setZoom_in_loop prj i zoom s) = m_zoom_minimum s
   \<and> m_zoom_minimum s \<le> m_current_zoom (setZoom_in_loop prj i zoom s)"
proof (induction prj i zoom s rule: setZoom_in_loop.induct)
  case (1 prj i zoom s)
  show ?case
  proof (cases "i < zoom")
    case True
    from "1.IH" [OF True] zoomIn_keeps_lower [OF "1.prems", of prj] show ?thesis
      by (subst (1 2) setZoom_in_loop.simps) (simp add: True zoomIn_minimum)
  next
    case False
    with "1.prems" show ?thesis
      by (subst (1 2) setZoom_in_loop.simps) simp
  qed
qed

lemma zoom_lower_bound_kept:
  "m_zoom_minimum (QMapControl_new prj size_px) \<le> m_current_zoom (QMapControl_new prj size_px)"
  "m_zoom_minimum s \<le> m_current_zoom s \<Longrightarrow>
     m_zoom_minimum (zoomIn prj s) \<le> m_current_zoom (zoomIn prj s)"
  "m_zoom_minimum s \<le> m_current_zoom s \<Longrightarrow>
     m_zoom_minimum (zoomOut prj s) \<le> m_current_zoom (zoomOut prj s)"
  "m_zoom_minimum s \<le> m_current_zoom s \<Longrightarrow>
     m_zoom_minimum (setZoom prj s zoom) \<le> m_current_zoom (setZoom prj s zoom)"
  "m_zoom_minimum s \<le> m_current_zoom s \<Longrightarrow>
     m_zoom_minimum (scrollView prj s delta_px) \<le> m_current_zoom (scrollView prj s delta_px)"
proof -
  show "m_zoom_minimum (QMapControl_new prj size_px) \<le> m_current_zoom (QMapControl_new prj size_px)"
    by (simp add: QMapControl_new_def setViewportSize_def redrawPrimaryScreen_def)
next
  assume "m_zoom_minimum s \<le> m_current_zoom s"
  then show "m_zoom_minimum (zoomIn prj s) \<le> m_current_zoom (zoomIn prj s)"
    using zoomIn_keeps_lower [of s prj] by (simp add: zoomIn_minimum)
next
  assume "m_zoom_minimum s \<le> m_current_zoom s"
  then show "m_zoom_minimum (zoomOut prj s) \<le> m_current_zoom (zoomOut prj s)"
    using zoomOut_keeps_lower [of s prj] by (simp add: zoomOut_minimum)
next
  assume "m_zoom_minimum s \<le> m_current_zoom s"
  then show "m_zoom_minimum (setZoom prj s zoom) \<le> m_current_zoom (setZoom prj s zoom)"
    using setZoom_out_loop_lower [of s prj] setZoom_in_loop_lower [of s prj]
    by (simp add: setZoom_def Let_def)
next
  assume "m_zoom_minimum s \<le> m_current_zoom s"
  then show "m_zoom_minimum (scrollView prj s delta_px) \<le> m_current_zoom (scrollView prj s delta_px)"
    by (simp add: scrollView_def setMapFocusPoint_def redrawPrimaryScreen_def Let_def)
qed

text \<open>
  The auto zoom as a whole.  For every list of coordinates,
  \<open>setMapFocusPoint(points, true)\<close> on a control at or above its minimum zoom ends
  in a state where every point of the list is contained in the viewport rectangle
  or the zoom equals the minimum.  On a control below its minimum the call ends
  with every point contained or the zoom at or below the minimum.  The only list
  without a resulting state is the empty one, whose mean is no number and for
  which there is no point to contain.
\<close>

lemma autoZoom_containment:
  "case setMapFocusPoint_points prj s points_coord True of
     Some s' \<Rightarrow>
       (\<forall>p\<in>set points_coord. contains (getViewportRect prj s') p)
       \<or> (if m_zoom_minimum s \<le> m_current_zoom s
          then m_current_zoom s' = m_zoom_minimum s'
          else m_current_zoom s' \<le> m_zoom_minimum s')
   | None \<Rightarrow> points_coord = []"
proof (cases "points_coord = []")
  case True
  then show ?thesis
    by (simp add: setMapFocusPoint_points_def calculateMapFocusPoint_eq)
next
  case False
  then obtain f where f: "calculateMapFocusPoint points_coord = Some f"
    by (simp add: calculateMapFocusPoint_eq)
  let ?moved = "setMapFocusPoint prj s f"
  have same: "m_zoom_minimum ?moved \<le> m_current_zoom ?moved \<longleftrightarrow> m_zoom_minimum s \<le> m_current_zoom s"
    by (simp add: setMapFocusPoint_def redrawPrimaryScreen_def)
  show ?thesis
  proof (cases "m_zoom_minimum s \<le> m_current_zoom s")
    case True
    then have low: "m_zoom_minimum ?moved \<le> m_current_zoom ?moved"
      by (simp only: same)
    show ?thesis
      using autoZoom_post(2) [OF low, where prj = prj and ps = points_coord] True
      by (auto simp add: setMapFocusPoint_points_def f Let_def viewportContainsAll_iff
          split: if_splits)
  next
    case below: False
    show ?thesis
      using autoZoom_post(1) [where prj = prj and start = ?moved and ps = points_coord] below
      by (auto simp add: setMapFocusPoint_points_def f Let_def viewportContainsAll_iff
          split: if_splits)
  qed
qed

text \<open>
  A run of the auto zoom: on the control of 400 by 400 pixels (zoom 0, bounds 0 and 17) the
  points (0, 0) and (10, 10) give the focus (5, 5); the second loop climbs to zoom
  6, where the viewport is 6.25 degrees wide and no longer holds the points, and
  the correction steps back to zoom 5, where it does.
\<close>

lemma autoZoom_containment_run:
  "m_zoom_minimum control400 \<le> m_current_zoom control400
   \<and> map_option m_current_zoom
        (setMapFocusPoint_points flat control400 [QPointF 0 0, QPointF 10 10] True) = Some 5
   \<and> map_option m_map_focus_coord
        (setMapFocusPoint_points flat control400 [QPointF 0 0, QPointF 10 10] True)
        = Some (QPointF 5 5)
   \<and> map_option (\<lambda>s'. contains (getViewportRect flat s') (QPointF 0 0)
                       \<and> contains (getViewportRect flat s') (QPointF 10 10))
        (setMapFocusPoint_points flat control400 [QPointF 0 0, QPointF 10 10] True)
        = Some True"
proof -
  let ?ps = "[QPointF 0 0, QPointF 10 10]"
  let ?s0 = "control400\<lparr>m_map_focus_coord := QPointF 5 5, redraw_jobs := 2\<rparr>"
  let ?s2 = "control400\<lparr>m_map_focus_coord := QPointF 5 5, m_current_zoom := 6, redraw_jobs := 8\<rparr>"
  let ?s3 = "control400\<lparr>m_map_focus_coord := QPointF 5 5, m_current_zoom := 5, redraw_jobs := 9\<rparr>"
  have lo: "m_zoom_minimum control400 \<le> m_current_zoom control400"
    by (simp add: control400_eq)
  have mean: "calculateMapFocusPoint ?ps = Some (QPointF 5 5)"
    by (simp add: calculateMapFocusPoint_eq)
  have s0: "setMapFocusPoint flat control400 (QPointF 5 5) = ?s0"
    by (simp add: control400_eq setMapFocusPoint_def flat_simps)
  have s1: "autoZoom_out_loop flat ?ps ?s0 = ?s0"
    by (simp add: control400_eq autoZoom_out_loop.simps)
  have s2: "autoZoom_in_loop flat ?ps ?s0 = ?s2"
    by (simp add: control400_eq autoZoom_in_loop.simps zoomIn_def flat_simps)
  have out: "viewportContainsAll flat ?s2 ?ps = False"
    by (simp add: control400_eq flat_simps)
  have s3: "zoomOut flat ?s2 = ?s3"
    by (simp add: control400_eq zoomOut_def redrawPrimaryScreen_def)
  have gt: "m_current_zoom ?s2 > m_zoom_minimum ?s2"
    by (simp add: control400_eq)
  have run: "setMapFocusPoint_points flat control400 ?ps True = Some ?s3"
    unfolding setMapFocusPoint_points_def mean option.case s0 Let_def s1 s2
    using out gt s3 by simp
  have z: "m_current_zoom ?s3 = 5" and f: "m_map_focus_coord ?s3 = QPointF 5 5"
    and m: "m_zoom_minimum ?s3 = 0"
    by (simp_all add: control400_eq)
  from autoZoom_containment [where prj = flat and s = control400 and points_coord = ?ps] lo z m
  have "\<forall>p\<in>set ?ps. contains (getViewportRect flat ?s3) p"
    unfolding run by simp
  with lo run z f show ?thesis by simp
qed

text \<open>
  Claim C4 asks that \<open>setMapFocusPoint(points, true)\<close> ends, for every list of
  coordinates, with every point in the viewport rectangle or with the zoom equal
  to the minimum.  On a control at or above its minimum zoom it does, as proved
  above.  \<open>checkZoom\<close> can leave a control below its minimum: after
  \<open>setZoomMaximum(10)\<close> on the freshly constructed control the bounds are 10 and 0
  and the zoom is 0.  There the call on the points (-300, 0) and (300, 0) enters
  neither loop and skips the correction, each of them guarded by a comparison of
  the zoom with a bound, and returns at zoom 0 with the minimum at 10:
  \<open>viewportContainsAll\<close> is false, neither point is in the viewport rectangle, and
  the zoom is not the minimum.
\<close>

theorem autoZoom_fails_below_minimum:
  "map_option (\<lambda>s'. (viewportContainsAll flat s' [QPointF (- 300) 0, QPointF 300 0],
                      contains (getViewportRect flat s') (QPointF (- 300) 0),
                      contains (getViewportRect flat s') (QPointF 300 0),
                      m_current_zoom s' = m_zoom_minimum s',
                      m_current_zoom s', m_zoom_minimum s', m_zoom_maximum s',
                      m_map_focus_coord s'))
     (setMapFocusPoint_points flat (setZoomMaximum flat control400 10)
        [QPointF (- 300) 0, QPointF 300 0] True)
   = Some (False, False, False, False, 0, 10, 0, QPointF 0 0)"
proof -
  let ?ps = "[QPointF (- 300) 0, QPointF 300 0]"
  let ?swapped = "control400\<lparr>m_zoom_minimum := 10, m_zoom_maximum := 0\<rparr>"
  let ?moved = "?swapped\<lparr>m_map_focus_coord := QPointF 0 0, redraw_jobs := 2\<rparr>"
  have s: "setZoomMaximum flat control400 10 = ?swapped"
    by (simp add: setZoomMaximum_def checkZoom_def setZoom_def control400_eq)
  have mean: "calculateMapFocusPoint ?ps = Some (QPointF 0 0)"
    by (simp add: calculateMapFocusPoint_eq)
  have s0: "setMapFocusPoint flat ?swapped (QPointF 0 0) = ?moved"
    by (simp add: control400_eq setMapFocusPoint_def flat_simps)
  have out: "viewportContainsAll flat ?moved ?ps = False"
    by (simp add: control400_eq flat_simps)
  have le: "\<not> m_current_zoom ?moved > m_zoom_minimum ?moved"
    by (simp add: control400_eq)
  have s1: "autoZoom_out_loop flat ?ps ?moved = ?moved"
    using out le by (subst autoZoom_out_loop.simps) simp
  have s2: "autoZoom_in_loop flat ?ps ?moved = ?moved"
    using out by (subst autoZoom_in_loop.simps) simp
  have run: "setMapFocusPoint_points flat ?swapped ?ps True = Some ?moved"
    unfolding setMapFocusPoint_points_def mean option.case s0 Let_def s1 s2
    using out le by simp
  have left: "contains (getViewportRect flat ?moved) (QPointF (- 300) 0) = False"
    and right: "contains (getViewportRect flat ?moved) (QPointF 300 0) = False"
    by (simp_all add: control400_eq flat_simps)
  have zoom: "m_current_zoom ?moved = 0" "m_zoom_minimum ?moved = 10"
    "m_zoom_maximum ?moved = 0" "m_map_focus_coord ?moved = QPointF 0 0"
    by (simp_all add: control400_eq)
  show ?thesis
    unfolding s run option.map out left right zoom by simp
qed

section \<open>Zoom bounds\<close>

text \<open>
  After \<open>setZoomMaximum(10)\<close> on the fresh control the bounds are 10 and 0 with the
  zoom at 0, below the minimum.  From there the auto zoom on the points (-300, 0)
  and (300, 0) moves nowhere: the zoom stays 0, the minimum is 10, and the
  viewport, 400 degrees wide around the origin, holds neither point.
\<close>

lemma autoZoom_below_minimum:
  "map_option (\<lambda>s'. (m_current_zoom s', m_zoom_minimum s',
                      contains (getViewportRect flat s') (QPointF (- 300) 0),
                      contains (getViewportRect flat s') (QPointF 300 0)))
     (setMapFocusPoint_points flat (setZoomMaximum flat control400 10)
        [QPointF (- 300) 0, QPointF 300 0] True)
   = Some (0, 10, False, False)"
proof -
  let ?ps = "[QPointF (- 300) 0, QPointF 300 0]"
  let ?swapped = "control400\<lparr>m_zoom_minimum := 10, m_zoom_maximum := 0\<rparr>"
  let ?moved = "?swapped\<lparr>m_map_focus_coord := QPointF 0 0, redraw_jobs := 2\<rparr>"
  have s: "setZoomMaximum flat control400 10 = ?swapped"
    by (simp add: setZoomMaximum_def checkZoom_def setZoom_def control400_eq)
  have mean: "calculateMapFocusPoint ?ps = Some (QPointF 0 0)"
    by (simp add: calculateMapFocusPoint_eq)
  have s0: "setMapFocusPoint flat ?swapped (QPointF 0 0) = ?moved"
    by (simp add: control400_eq setMapFocusPoint_def flat_simps)
  have out: "viewportContainsAll flat ?moved ?ps = False"
    by (simp add: control400_eq flat_simps)
  have le: "\<not> m_current_zoom ?moved > m_zoom_minimum ?moved"
    by (simp add: control400_eq)
  have s1: "autoZoom_out_loop flat ?ps ?moved = ?moved"
    using out le by (subst autoZoom_out_loop.simps) simp
  have s2: "autoZoom_in_loop flat ?ps ?moved = ?moved"
    using out by (subst autoZoom_in_loop.simps) simp
  have run: "setMapFocusPoint_points flat ?swapped ?ps True = Some ?moved"
    unfolding setMapFocusPoint_points_def mean option.case s0 Let_def s1 s2
    using out le by simp
  show ?thesis
    unfolding s run by (simp add: control400_eq flat_simps)
qed

text \<open>
  Claim C2 asks for \<open>zoomMin \<le> zoomCurrent \<le> zoomMax\<close> after every operation, the
  bounds being exchanged when the minimum exceeds the maximum.  \<open>checkZoom\<close>
  compares the other way round.  On the freshly constructed control (bounds 0
  and 17, zoom 0) \<open>setZoomMaximum(10)\<close> exchanges the ordered bounds 0 and 10 and
  leaves minimum 10, maximum 0 and zoom 0; \<open>setZoomMinimum(20)\<close> leaves the
  disordered bounds 20 and 17 as they are, with zoom 17.  A control left below
  its minimum is outside the states from which the auto zoom is proved to end as
  C4 says, and the run above shows the auto zoom failing there.
\<close>

theorem checkZoom_breaks_zoom_invariant:
  "m_zoom_minimum (setZoomMaximum flat control400 10) = 10
   \<and> m_zoom_maximum (setZoomMaximum flat control400 10) = 0
   \<and> m_current_zoom (setZoomMaximum flat control400 10) = 0
   \<and> m_zoom_minimum (setZoomMinimum flat control400 20) = 20
   \<and> m_zoom_maximum (setZoomMinimum flat control400 20) = 17
   \<and> m_current_zoom (setZoomMinimum flat control400 20) = 17
   \<and> map_option (\<lambda>s'. (m_current_zoom s', m_zoom_minimum s',
                         contains (getViewportRect flat s') (QPointF (- 300) 0),
                         contains (getViewportRect flat s') (QPointF 300 0)))
        (setMapFocusPoint_points flat (setZoomMaximum flat control400 10)
           [QPointF (- 300) 0, QPointF 300 0] True)
       = Some (0, 10, False, False)"
proof -
  have a: "setZoomMaximum flat control400 10
             = control400\<lparr>m_zoom_minimum := 10, m_zoom_maximum := 0\<rparr>"
    by (simp add: setZoomMaximum_def checkZoom_def setZoom_def control400_eq)
  have a': "m_zoom_minimum (setZoomMaximum flat control400 10) = 10
            \<and> m_zoom_maximum (setZoomMaximum flat control400 10) = 0
            \<and> m_current_zoom (setZoomMaximum flat control400 10) = 0"
    unfolding a by (simp add: control400_eq)
  have b: "m_zoom_minimum (setZoomMinimum flat control400 20) = 20
           \<and> m_zoom_maximum (setZoomMinimum flat control400 20) = 17
           \<and> m_current_zoom (setZoomMinimum flat control400 20) = 17"
    by (simp add: setZoomMinimum_def checkZoom_def setZoom_def control400_eq
        setZoom_in_loop.simps zoomIn_def redrawPrimaryScreen_def)
  from a' b autoZoom_below_minimum show ?thesis by simp
qed

section \<open>A request while an animation runs\<close>

lemma scrollView_animation:
  "m_animated_mutex (scrollView prj s d) = m_animated_mutex s"
  "m_animated_steps (scrollView prj s d) = m_animated_steps s"
  "m_animated_interval (scrollView prj s d) = m_animated_interval s"
  "m_animated_map_focus_point (scrollView prj s d) = m_animated_map_focus_point s"
  "animated_ticks_pending (scrollView prj s d) = animated_ticks_pending s"
  by (simp_all add: scrollView_def setMapFocusPoint_def redrawPrimaryScreen_def Let_def)

text \<open>A tick with steps left: one step less, the timer armed again, the mutex held.\<close>

lemma timerFires_step:
  assumes "animated_ticks_pending s > 0" and "m_animated_steps s > 0"
  shows "m_animated_mutex (timerFires prj s) = m_animated_mutex s"
    and "m_animated_steps (timerFires prj s) = m_animated_steps s - 1"
    and "m_animated_interval (timerFires prj s) = m_animated_interval s"
    and "m_animated_map_focus_point (timerFires prj s) = m_animated_map_focus_point s"
    and "animated_ticks_pending (timerFires prj s) = animated_ticks_pending s"
  using assms by (simp_all add: timerFires_def animatedTick_def Let_def scrollView_animation)

text \<open>A tick with no step left: the mutex is released and no timer is armed.\<close>

lemma timerFires_last:
  assumes "animated_ticks_pending s > 0" and "m_animated_steps s \<le> 0"
  shows "timerFires prj s
           = s\<lparr>animated_ticks_pending := animated_ticks_pending s - 1, m_animated_mutex := False\<rparr>"
  using assms by (simp add: timerFires_def animatedTick_def)

lemma animation_runs:
  assumes "animated_ticks_pending s > 0" and "m_animated_mutex s"
    and "k \<le> nat (m_animated_steps s)"
  shows "m_animated_mutex ((timerFires prj ^^ k) s)
       \<and> animated_ticks_pending ((timerFires prj ^^ k) s) = animated_ticks_pending s
       \<and> m_animated_steps ((timerFires prj ^^ k) s) = m_animated_steps s - int k
       \<and> m_animated_interval ((timerFires prj ^^ k) s) = m_animated_interval s
       \<and> m_animated_map_focus_point ((timerFires prj ^^ k) s) = m_animated_map_focus_point s"
  using assms
proof (induction k)
  case 0
  then show ?case by simp
next
  case (Suc k)
  then have ih: "m_animated_mutex ((timerFires prj ^^ k) s)"
    "animated_ticks_pending ((timerFires prj ^^ k) s) = animated_ticks_pending s"
    "m_animated_steps ((timerFires prj ^^ k) s) = m_animated_steps s - int k"
    "m_animated_interval ((timerFires prj ^^ k) s) = m_animated_interval s"
    "m_animated_map_focus_point ((timerFires prj ^^ k) s) = m_animated_map_focus_point s"
    by simp_all
  have pos: "m_animated_steps ((timerFires prj ^^ k) s) > 0"
    using Suc.prems(3) ih(3) by linarith
  have armed: "animated_ticks_pending ((timerFires prj ^^ k) s) > 0"
    using Suc.prems(1) ih(2) by simp
  show ?case
    using timerFires_step [OF armed pos, of prj] ih by simp
qed

lemma animation_completes:
  assumes "animated_ticks_pending s > 0" and "m_animated_mutex s"
  shows "\<not> m_animated_mutex ((timerFires prj ^^ (nat (m_animated_steps s) + 1)) s)
       \<and> m_animated_steps ((timerFires prj ^^ (nat (m_animated_steps s) + 1)) s)
           = min (m_animated_steps s) 0
       \<and> m_animated_map_focus_point ((timerFires prj ^^ (nat (m_animated_steps s) + 1)) s)
           = m_animated_map_focus_point s
       \<and> animated_ticks_pending ((timerFires prj ^^ (nat (m_animated_steps s) + 1)) s)
           = animated_ticks_pending s - 1"
proof -
  let ?n = "nat (m_animated_steps s)"
  let ?t = "(timerFires prj ^^ ?n) s"
  note run = animation_runs [OF assms, of ?n prj]
  have armed: "animated_ticks_pending ?t > 0"
    using run assms(1) by simp
  have none: "m_animated_steps ?t \<le> 0"
    using run by simp
  have "(timerFires prj ^^ (?n + 1)) s = timerFires prj ?t"
    by simp
  also have "\<dots> = ?t\<lparr>animated_ticks_pending := animated_ticks_pending ?t - 1,
                        m_animated_mutex := False\<rparr>"
    by (rule timerFires_last [OF armed none])
  finally show ?thesis
    using run by (simp add: min_def)
qed

text \<open>
  Claim C8.  Let an animation be in progress: the mutex is held and a tick is
  armed.  A call of \<open>setMapFocusPointAnimated\<close> then returns the control as it was,
  so the target, the remaining steps, the interval and the number of armed ticks
  are those of the animation in progress, and nothing is queued.  That animation
  goes on: it keeps the mutex and its target through as many ticks as it has steps
  left, and the tick after them releases the mutex with the target unchanged and
  no tick left armed for it.
\<close>

theorem animation_request_rejected:
  assumes "m_animated_mutex s" and "animated_ticks_pending s > 0"
  shows "setMapFocusPointAnimated prj s coordinate steps step_interval = s
       \<and> (\<forall>k \<le> nat (m_animated_steps s).
             m_animated_mutex
               ((timerFires prj ^^ k)
                  (setMapFocusPointAnimated prj s coordinate steps step_interval))
             \<and> m_animated_steps
                 ((timerFires prj ^^ k)
                    (setMapFocusPointAnimated prj s coordinate steps step_interval))
               = m_animated_steps s - int k
             \<and> m_animated_map_focus_point
                 ((timerFires prj ^^ k)
                    (setMapFocusPointAnimated prj s coordinate steps step_interval))
               = m_animated_map_focus_point s)
       \<and> \<not> m_animated_mutex
             ((timerFires prj ^^ (nat (m_animated_steps s) + 1))
                (setMapFocusPointAnimated prj s coordinate steps step_interval))
       \<and> m_animated_map_focus_point
             ((timerFires prj ^^ (nat (m_animated_steps s) + 1))
                (setMapFocusPointAnimated prj s coordinate steps step_interval))
           = m_animated_map_focus_point s
       \<and> animated_ticks_pending
             ((timerFires prj ^^ (nat (m_animated_steps s) + 1))
                (setMapFocusPointAnimated prj s coordinate steps step_interval))
           = animated_ticks_pending s - 1"
proof -
  have same: "setMapFocusPointAnimated prj s coordinate steps step_interval = s"
    using assms(1) by (simp add: setMapFocusPointAnimated_def)
  have "\<forall>k \<le> nat (m_animated_steps s).
          m_animated_mutex ((timerFires prj ^^ k) s)
          \<and> m_animated_steps ((timerFires prj ^^ k) s) = m_animated_steps s - int k
          \<and> m_animated_map_focus_point ((timerFires prj ^^ k) s) = m_animated_map_focus_point s"
    using animation_runs [OF assms(2,1), of _ prj] by blast
  with animation_completes [OF assms(2,1), of prj] show ?thesis
    unfolding same by blast
qed

lemma funpow_six: "(f ^^ 6) x = f (f (f (f (f (f x)))))"
  by (simp add: eval_nat_numeral)

text \<open>
  A run of C8: on the control of 400 by 400 pixels an animation to (8, 8) in 5
  steps of 100 ms is started, and a second request, to (1, 1) in 3 steps of 50 ms,
  follows at once.  The second request changes nothing; six ticks later the mutex
  is free, no step and no tick is left, and the focus is the first target.
\<close>

theorem animation_request_rejected_witness:
  "m_animated_mutex (setMapFocusPointAnimated flat control400 (QPointF 8 8) 5 100)
   \<and> animated_ticks_pending (setMapFocusPointAnimated flat control400 (QPointF 8 8) 5 100) > 0
   \<and> setMapFocusPointAnimated flat
        (setMapFocusPointAnimated flat control400 (QPointF 8 8) 5 100) (QPointF 1 1) 3 50
       = setMapFocusPointAnimated flat control400 (QPointF 8 8) 5 100
   \<and> m_animated_map_focus_point
        (setMapFocusPointAnimated flat
           (setMapFocusPointAnimated flat control400 (QPointF 8 8) 5 100) (QPointF 1 1) 3 50)
       = QPointF 8 8
   \<and> m_animated_steps
        (setMapFocusPointAnimated flat
           (setMapFocusPointAnimated flat control400 (QPointF 8 8) 5 100) (QPointF 1 1) 3 50)
       = 5
   \<and> m_animated_interval
        (setMapFocusPointAnimated flat
           (setMapFocusPointAnimated flat control400 (QPointF 8 8) 5 100) (QPointF 1 1) 3 50)
       = 100
   \<and> (timerFires flat ^^ 6)
        (setMapFocusPointAnimated flat
           (setMapFocusPointAnimated flat control400 (QPointF 8 8) 5 100) (QPointF 1 1) 3 50)
       = control400\<lparr>m_map_focus_coord := QPointF 8 8,
                     m_animated_map_focus_point := QPointF 8 8,
                     m_animated_interval := 100,
                     redraw_jobs := 6\<rparr>"
proof -
  let ?a = "control400\<lparr>m_animated_map_focus_point := QPointF 8 8, m_animated_interval := 100,
                        m_animated_mutex := True\<rparr>"
  let ?s1 = "?a\<lparr>m_animated_steps := 5, animated_ticks_pending := 1\<rparr>"
  have first: "setMapFocusPointAnimated flat control400 (QPointF 8 8) 5 100 = ?s1"
    by (simp add: setMapFocusPointAnimated_def control400_eq)
  have held: "m_animated_mutex ?s1" and armed: "animated_ticks_pending ?s1 > 0"
    and five: "nat (m_animated_steps ?s1) + 1 = 6"
    by simp_all
  note rejected = animation_request_rejected
    [OF held armed, where prj = flat and coordinate = "QPointF 1 1" and steps = 3
       and step_interval = 50]
  have same: "setMapFocusPointAnimated flat ?s1 (QPointF 1 1) 3 50 = ?s1"
    using rejected by blast
  have free: "\<not> m_animated_mutex ((timerFires flat ^^ 6) ?s1)"
    using rejected unfolding same five by blast
  have t1: "timerFires flat ?s1
      = ?a\<lparr>m_map_focus_coord := QPointF (8 / 5) (8 / 5), m_animated_steps := 4,
            redraw_jobs := 2, animated_ticks_pending := 1\<rparr>"
    by (simp add: timerFires_def animatedTick_def scrollView_def setMapFocusPoint_def
        isNull_def pt_div_def control400_eq flat_simps)
  have t2: "timerFires flat
        (?a\<lparr>m_map_focus_coord := QPointF (8 / 5) (8 / 5), m_animated_steps := 4,
            redraw_jobs := 2, animated_ticks_pending := 1\<rparr>)
      = ?a\<lparr>m_map_focus_coord := QPointF (16 / 5) (16 / 5), m_animated_steps := 3,
            redraw_jobs := 3, animated_ticks_pending := 1\<rparr>"
    by (simp add: timerFires_def animatedTick_def scrollView_def setMapFocusPoint_def
        isNull_def pt_div_def control400_eq flat_simps)
  have t3: "timerFires flat
        (?a\<lparr>m_map_focus_coord := QPointF (16 / 5) (16 / 5), m_animated_steps := 3,
            redraw_jobs := 3, animated_ticks_pending := 1\<rparr>)
      = ?a\<lparr>m_map_focus_coord := QPointF (24 / 5) (24 / 5), m_animated_steps := 2,
            redraw_jobs := 4, animated_ticks_pending := 1\<rparr>"
    by (simp add: timerFires_def animatedTick_def scrollView_def setMapFocusPoint_def
        isNull_def pt_div_def control400_eq flat_simps)
  have t4: "timerFires flat
        (?a\<lparr>m_map_focus_coord := QPointF (24 / 5) (24 / 5), m_animated_steps := 2,
            redraw_jobs := 4, animated_ticks_pending := 1\<rparr>)
      = ?a\<lparr>m_map_focus_coord := QPointF (32 / 5) (32 / 5), m_animated_steps := 1,
            redraw_jobs := 5, animated_ticks_pending := 1\<rparr>"
    by (simp add: timerFires_def animatedTick_def scrollView_def setMapFocusPoint_def
        isNull_def pt_div_def control400_eq flat_simps)
  have t5: "timerFires flat
        (?a\<lparr>m_map_focus_coord := QPointF (32 / 5) (32 / 5), m_animated_steps := 1,
            redraw_jobs := 5, animated_ticks_pending := 1\<rparr>)
      = ?a\<lparr>m_map_focus_coord := QPointF 8 8, m_animated_steps := 0,
            redraw_jobs := 6, animated_ticks_pending := 1\<rparr>"
    by (simp add: timerFires_def animatedTick_def scrollView_def setMapFocusPoint_def
        isNull_def pt_div_def control400_eq flat_simps)
  have t6: "timerFires flat
        (?a\<lparr>m_map_focus_coord := QPointF 8 8, m_animated_steps := 0,
            redraw_jobs := 6, animated_ticks_pending := 1\<rparr>)
      = control400\<lparr>m_map_focus_coord := QPointF 8 8,
                     m_animated_map_focus_point := QPointF 8 8,
                     m_animated_interval := 100,
                     redraw_jobs := 6\<rparr>"
    by (simp add: timerFires_def animatedTick_def control400_eq)
  have six: "(timerFires flat ^^ 6) ?s1
      = control400\<lparr>m_map_focus_coord := QPointF 8 8,
                     m_animated_map_focus_point := QPointF 8 8,
                     m_animated_interval := 100,
                     redraw_jobs := 6\<rparr>"
    by (simp only: funpow_six t1 t2 t3 t4 t5 t6)
  show ?thesis
    unfolding first same using held armed six by simp
qed

section \<open>Redraw jobs and their two mutexes\<close>






























end
